theory Spec2Isabelle
  imports Main "HOL-Library.Sublist" "HOL-Library.Multiset"
begin

section \<open>Notification dispatch: data model\<close>

text \<open>
  The notification service (package services, type NotificationService) embedded
  shallowly. Go strings are byte strings and become \<open>string\<close>; the request is a value
  (a nil request pointer and nil clients are left out). A Go function returning
  \<open>(*T, error)\<close> returns a \<open>result\<close>; a panic is the third constructor. The external
  collaborators (the SES and SNS clients, the clock, the UUID generator, the runtime's map
  iteration order) are fields of an environment record acting on an abstract world \<open>'w\<close>;
  every effectful function takes the world and returns it together with the list of
  transport calls it made, in order.
\<close>

datatype error =
    ExternalError string
  | ErrorNew string
  | Errorf string error

text \<open>
  The error uuid.Parse returns (an invalid length, an invalid urn prefix, an invalid
  format), and the value uuid.MustParse panics with: the string \<open>uuid: Parse(\<close>, the
  input, \<open>): \<close> and the error's text, kept here as the input and the error.
\<close>

datatype parse_error = InvalidLength nat | InvalidUrnPrefix string | InvalidFormat

datatype panic = ParsePanic string parse_error

datatype 'a result = Ok 'a | Err error | Panic panic

type_synonym UUID = "nat list"

record NotificationRequest =
  Type :: string
  Title :: string
  Message :: string
  LandlordID :: string
  RecipientID :: string
  RecipientType :: string
  RecipientEmail :: string
  RecipientPhone :: string
  RelatedEntityID :: "UUID option"
  RelatedEntityType :: string
  Priority :: string

record 't NotificationResponse =
  NotificationID :: string
  Status :: string
  SentAt :: 't
  Channel :: string

text \<open>
  A Go \<open>map[string]string\<close> is kept as the list of its entries, with distinct keys.
  The order in which \<open>range\<close> visits them is not fixed by the language; see \<open>map_range\<close>.
\<close>

type_synonym gomap = "(string \<times> string) list"

record EmailTemplate =
  Subject :: string
  HTMLBody :: string
  TextBody :: string
  Variables :: gomap

record SMSTemplate =
  sms_Message :: string
  sms_Variables :: gomap

record SendEmailInput =
  Source :: string
  ToAddresses :: "string list"
  SubjectData :: string
  SubjectCharset :: string
  HtmlData :: string
  HtmlCharset :: string
  TextData :: string
  TextCharset :: string

record PublishInput =
  pub_Message :: string
  PhoneNumber :: string
  MessageAttributes :: "(string \<times> string \<times> string) list"

text \<open>One transport call, with the input it was given and whether it returned a nil error.\<close>

datatype event =
    EmailCall SendEmailInput bool
  | SMSCall PublishInput bool

fun is_email :: "event \<Rightarrow> bool" where
  "is_email (EmailCall i ok) = True"
| "is_email (SMSCall i ok) = False"

fun is_sms :: "event \<Rightarrow> bool" where
  "is_sms (EmailCall i ok) = False"
| "is_sms (SMSCall i ok) = True"

fun failed_email :: "event \<Rightarrow> bool" where
  "failed_email (EmailCall i ok) = (\<not> ok)"
| "failed_email (SMSCall i ok) = False"

fun succeeded_email :: "event \<Rightarrow> bool" where
  "succeeded_email (EmailCall i ok) = ok"
| "succeeded_email (SMSCall i ok) = False"

fun failed_sms :: "event \<Rightarrow> bool" where
  "failed_sms (EmailCall i ok) = False"
| "failed_sms (SMSCall i ok) = (\<not> ok)"

record ('w, 't) env =
  SendEmail :: "SendEmailInput \<Rightarrow> 'w \<Rightarrow> error option \<times> 'w"
  Publish :: "PublishInput \<Rightarrow> 'w \<Rightarrow> error option \<times> 'w"
  uuid_NewString :: "'w \<Rightarrow> string \<times> 'w"
  time_Now :: "'w \<Rightarrow> 't \<times> 'w"
  time_Format :: "'t \<Rightarrow> string \<Rightarrow> string"
  range_seed :: "'w \<Rightarrow> nat list \<times> 'w"
  FromEmail :: string

section \<open>Library functions the service calls\<close>

subsection \<open>uuid.Parse (github.com/google/uuid v1.5.0)\<close>

text \<open>
  \<open>uuid.MustParse\<close> panics exactly when \<open>uuid.Parse\<close> returns an error. Parse accepts
  the 36-byte form xxxxxxxx-xxxx-xxxx-xxxx-xxxxxxxxxxxx, the same after a 9-byte
  \<open>urn:uuid:\<close> prefix (compared case-insensitively), the 38-byte form whose first byte
  is dropped, and 32 hexadecimal digits; every other length is an error
  (\<open>invalid UUID length\<close>), a wrong prefix is \<open>invalid urn prefix\<close>, a misplaced dash
  or a byte that is no hexadecimal digit is \<open>invalid UUID format\<close>. The library is not
  part of the repository; the service discards the parsed value.
\<close>

definition xvalue :: "char \<Rightarrow> nat option" where
  "xvalue c =
     (let n = (of_char c :: nat) in
      if 48 \<le> n \<and> n \<le> 57 then Some (n - 48)
      else if 65 \<le> n \<and> n \<le> 70 then Some (n - 55)
      else if 97 \<le> n \<and> n \<le> 102 then Some (n - 87)
      else None)"

definition xtob :: "char \<Rightarrow> char \<Rightarrow> nat option" where
  "xtob x1 x2 =
     (case (xvalue x1, xvalue x2) of
        (Some b1, Some b2) \<Rightarrow> Some (16 * b1 + b2)
      | _ \<Rightarrow> None)"

fun xtob_at :: "string \<Rightarrow> nat list \<Rightarrow> UUID option" where
  "xtob_at s [] = Some []"
| "xtob_at s (x # xs) =
     (case xtob (s ! x) (s ! Suc x) of
        None \<Rightarrow> None
      | Some v \<Rightarrow> (case xtob_at s xs of None \<Rightarrow> None | Some vs \<Rightarrow> Some (v # vs)))"

definition ascii_lower :: "char \<Rightarrow> char" where
  "ascii_lower c =
     (let n = (of_char c :: nat) in if 65 \<le> n \<and> n \<le> 90 then char_of (n + 32) else c)"

definition hex_pairs :: "string \<Rightarrow> nat list \<Rightarrow> parse_error + UUID" where
  "hex_pairs s xs = (case xtob_at s xs of None \<Rightarrow> Inl InvalidFormat | Some u \<Rightarrow> Inr u)"

definition parse_dashed :: "string \<Rightarrow> parse_error + UUID" where
  "parse_dashed s =
     (if s ! 8 \<noteq> CHR ''-'' \<or> s ! 13 \<noteq> CHR ''-'' \<or> s ! 18 \<noteq> CHR ''-'' \<or> s ! 23 \<noteq> CHR ''-''
      then Inl InvalidFormat
      else hex_pairs s [0, 2, 4, 6, 9, 11, 14, 16, 19, 21, 24, 26, 28, 30, 32, 34])"

definition uuid_Parse :: "string \<Rightarrow> parse_error + UUID" where
  "uuid_Parse s =
     (if length s = 36 then parse_dashed s
      else if length s = 36 + 9 then
        (if map ascii_lower (take 9 s) \<noteq> ''urn:uuid:'' then Inl (InvalidUrnPrefix (take 9 s))
         else parse_dashed (drop 9 s))
      else if length s = 36 + 2 then parse_dashed (drop 1 s)
      else if length s = 32 then
        hex_pairs s [0, 2, 4, 6, 8, 10, 12, 14, 16, 18, 20, 22, 24, 26, 28, 30]
      else Inl (InvalidLength (length s)))"

subsection \<open>strings.ReplaceAll\<close>

text \<open>
  \<open>strings.ReplaceAll s old new\<close> replaces the non-overlapping occurrences of \<open>old\<close>,
  found from left to right. For an empty \<open>old\<close> Go inserts \<open>new\<close> before every rune
  and at the end; the model does so before every byte, which is the same on ASCII text
  (the service never passes an empty \<open>old\<close>: a placeholder has at least four bytes).
\<close>

function ReplaceAll :: "string \<Rightarrow> string \<Rightarrow> string \<Rightarrow> string" where
  "ReplaceAll [] old new = (if old = [] then new else [])"
| "ReplaceAll (c # cs) old new =
     (if old = [] then new @ c # ReplaceAll cs old new
      else if prefix old (c # cs) then new @ ReplaceAll (drop (length old) (c # cs)) old new
      else c # ReplaceAll cs old new)"
  by pat_completeness auto
termination
  by (relation "measure (\<lambda>(s, old, new). length s)") auto

subsection \<open>Iteration order of a map\<close>

text \<open>
  \<open>for key, value := range m\<close> visits every entry once, in an order the runtime picks.
  The environment supplies a seed; \<open>shuffle\<close> turns it into an order of the entries:
  each seed number picks the next entry among those left.
\<close>

function shuffle :: "nat list \<Rightarrow> 'a list \<Rightarrow> 'a list" where
  "shuffle [] xs = xs"
| "shuffle (n # ns) [] = []"
| "shuffle (n # ns) (x # xs) =
     ((x # xs) ! (n mod Suc (length xs)))
       # shuffle ns (take (n mod Suc (length xs)) (x # xs) @ drop (Suc (n mod Suc (length xs))) (x # xs))"
  by pat_completeness auto
termination
  by (relation "measure (\<lambda>(ns, xs). length ns)") auto

definition map_range :: "('w, 't) env \<Rightarrow> gomap \<Rightarrow> 'w \<Rightarrow> gomap \<times> 'w" where
  "map_range env m w = (case range_seed env w of (seed, w') \<Rightarrow> (shuffle seed m, w'))"

section \<open>The service\<close>

subsection \<open>Templates\<close>

definition maintenance_request_HTMLBody :: string where
  \<open>maintenance_request_HTMLBody = ''
				<!DOCTYPE html>
				<html>
				<head>
					<style>
						body { font-family: Arial, sans-serif; line-height: 1.6; color: #333; }
						.container { max-width: 600px; margin: 0 auto; padding: 20px; }
						.header { background-color: #f8f9fa; padding: 20px; border-radius: 5px; }
						.content { padding: 20px; }
						.button { display: inline-block; padding: 10px 20px; background-color: #007bff; color: white; text-decoration: none; border-radius: 5px; }
					</style>
				</head>
				<body>
					<div class="container">
						<div class="header">
							<h2>Maintenance Request</h2>
						</div>
						<div class="content">
							<p>Hello {{recipient_name}},</p>
							<p>A new maintenance request has been submitted:</p>
							<h3>{{title}}</h3>
							<p>{{message}}</p>
							<p><strong>Priority:</strong> {{priority}}</p>
							<p><strong>Category:</strong> {{category}}</p>
							<p><strong>Date:</strong> {{date}} at {{time}}</p>
							<p>Please review and take appropriate action.</p>
						</div>
					</div>
				</body>
				</html>''\<close>

definition maintenance_request_TextBody :: string where
  \<open>maintenance_request_TextBody = ''
Maintenance Request

Hello {{recipient_name}},

A new maintenance request has been submitted:

{{title}}

{{message}}

Priority: {{priority}}
Category: {{category}}
Date: {{date}} at {{time}}

Please review and take appropriate action.''\<close>

definition payment_due_HTMLBody :: string where
  \<open>payment_due_HTMLBody = ''
				<!DOCTYPE html>
				<html>
				<head>
					<style>
						body { font-family: Arial, sans-serif; line-height: 1.6; color: #333; }
						.container { max-width: 600px; margin: 0 auto; padding: 20px; }
						.header { background-color: #fff3cd; padding: 20px; border-radius: 5px; border: 1px solid #ffeaa7; }
						.content { padding: 20px; }
						.amount { font-size: 24px; font-weight: bold; color: #d63031; }
					</style>
				</head>
				<body>
					<div class="container">
						<div class="header">
							<h2>Payment Due Reminder</h2>
						</div>
						<div class="content">
							<p>Hello {{recipient_name}},</p>
							<p>This is a friendly reminder that your payment is due:</p>
							<p class="amount">Amount: ${{amount}}</p>
							<p><strong>Due Date:</strong> {{due_date}}</p>
							<p><strong>Property:</strong> {{property_name}}</p>
							<p>Please ensure your payment is submitted on time to avoid any late fees.</p>
						</div>
					</div>
				</body>
				</html>''\<close>

definition payment_due_TextBody :: string where
  \<open>payment_due_TextBody = ''
Payment Due Reminder

Hello {{recipient_name}},

This is a friendly reminder that your payment is due:

Amount: ${{amount}}
Due Date: {{due_date}}
Property: {{property_name}}

Please ensure your payment is submitted on time to avoid any late fees.''\<close>

definition generic_HTMLBody :: string where
  \<open>generic_HTMLBody = ''
				<!DOCTYPE html>
				<html>
				<head>
					<style>
						body { font-family: Arial, sans-serif; line-height: 1.6; color: #333; }
						.container { max-width: 600px; margin: 0 auto; padding: 20px; }
						.header { background-color: #f8f9fa; padding: 20px; border-radius: 5px; }
						.content { padding: 20px; }
					</style>
				</head>
				<body>
					<div class="container">
						<div class="header">
							<h2>{{title}}</h2>
						</div>
						<div class="content">
							<p>Hello {{recipient_name}},</p>
							<p>{{message}}</p>
							<p>Date: {{date}} at {{time}}</p>
						</div>
					</div>
				</body>
				</html>''\<close>

definition generic_TextBody :: string where
  \<open>generic_TextBody = ''
{{title}}

Hello {{recipient_name}},

{{message}}

Date: {{date}} at {{time}}''\<close>

text \<open>getEmailTemplate: the base variables, then the switch on the notification type.\<close>

definition getEmailTemplate ::
  "('w, 't) env \<Rightarrow> string \<Rightarrow> NotificationRequest \<Rightarrow> 'w \<Rightarrow> EmailTemplate \<times> 'w" where
  "getEmailTemplate env notificationType req w =
     (case time_Now env w of (t1, w1) \<Rightarrow>
      case time_Now env w1 of (t2, w2) \<Rightarrow>
      let variables =
            [(''recipient_name'', RecipientType req),
             (''landlord_name'', ''Property Management''),
             (''date'', time_Format env t1 ''January 2, 2006''),
             (''time'', time_Format env t2 ''3:04 PM'')]
      in ((if notificationType = ''maintenance_request'' then
             \<lparr>Subject = ''New Maintenance Request - {{title}}'',
              HTMLBody = maintenance_request_HTMLBody,
              TextBody = maintenance_request_TextBody,
              Variables = variables\<rparr>
           else if notificationType = ''payment_due'' then
             \<lparr>Subject = ''Payment Due Reminder'',
              HTMLBody = payment_due_HTMLBody,
              TextBody = payment_due_TextBody,
              Variables = variables\<rparr>
           else
             \<lparr>Subject = ''{{title}}'',
              HTMLBody = generic_HTMLBody,
              TextBody = generic_TextBody,
              Variables = variables\<rparr>), w2))"

definition getSMSTemplate :: "string \<Rightarrow> NotificationRequest \<Rightarrow> SMSTemplate" where
  "getSMSTemplate notificationType req =
     (let variables = [(''recipient_name'', RecipientType req)]
      in if notificationType = ''maintenance_emergency'' then
           \<lparr>sms_Message = ''URGENT: Emergency maintenance request at {{property_name}}. Please respond immediately.'',
            sms_Variables = variables\<rparr>
         else if notificationType = ''payment_overdue'' then
           \<lparr>sms_Message = ''Payment overdue: ${{amount}} due for {{property_name}}. Please contact us immediately.'',
            sms_Variables = variables\<rparr>
         else
           \<lparr>sms_Message = ''{{title}}: {{message}}'',
            sms_Variables = variables\<rparr>)"

subsection \<open>replaceVariables\<close>

text \<open>
  The loop of replaceVariables over the entries of the map, in the order \<open>range\<close>
  visits them: one ReplaceAll pass per entry.
\<close>

definition placeholder :: "string \<Rightarrow> string" where
  "placeholder key = ''{{'' @ key @ ''}}''"

fun replaceVariables :: "string \<Rightarrow> gomap \<Rightarrow> string" where
  "replaceVariables result [] = result"
| "replaceVariables result ((key, val) # rest) =
     replaceVariables (ReplaceAll result (placeholder key) val) rest"

subsection \<open>Sending\<close>

definition isCriticalNotificationType :: "string \<Rightarrow> bool" where
  "isCriticalNotificationType notificationType =
     (case map_of
        [(''maintenance_emergency'', True),
         (''payment_overdue'', True),
         (''lease_violation'', True),
         (''property_damage'', True),
         (''security_breach'', True)] notificationType of
        None \<Rightarrow> False
      | Some b \<Rightarrow> b)"

definition sendEmailNotification ::
  "('w, 't) env \<Rightarrow> NotificationRequest \<Rightarrow> 'w \<Rightarrow> 't NotificationResponse result \<times> event list \<times> 'w" where
  "sendEmailNotification env req w =
     (case getEmailTemplate env (Type req) req w of (template, w1) \<Rightarrow>
      case map_range env (Variables template) w1 of (order1, w2) \<Rightarrow>
      case map_range env (Variables template) w2 of (order2, w3) \<Rightarrow>
      case map_range env (Variables template) w3 of (order3, w4) \<Rightarrow>
      let subject = replaceVariables (Subject template) order1;
          htmlBody = replaceVariables (HTMLBody template) order2;
          textBody = replaceVariables (TextBody template) order3;
          emailInput =
            \<lparr>Source = FromEmail env,
             ToAddresses = [RecipientEmail req],
             SubjectData = subject, SubjectCharset = ''UTF-8'',
             HtmlData = htmlBody, HtmlCharset = ''UTF-8'',
             TextData = textBody, TextCharset = ''UTF-8''\<rparr>
      in case SendEmail env emailInput w4 of
           (Some err, w5) \<Rightarrow>
             (Err (Errorf ''failed to send email: '' err), [EmailCall emailInput False], w5)
         | (None, w5) \<Rightarrow>
             (case uuid_NewString env w5 of (nid, w6) \<Rightarrow>
              case time_Now env w6 of (now, w7) \<Rightarrow>
                (Ok \<lparr>NotificationID = nid, Status = ''sent'', SentAt = now, Channel = ''email''\<rparr>,
                 [EmailCall emailInput True], w7)))"

definition sendSMSNotification ::
  "('w, 't) env \<Rightarrow> NotificationRequest \<Rightarrow> 'w \<Rightarrow> 't NotificationResponse result \<times> event list \<times> 'w" where
  "sendSMSNotification env req w =
     (if RecipientPhone req = [] then
        (Err (ErrorNew ''recipient phone number is required for SMS notifications''), [], w)
      else
        let template = getSMSTemplate (Type req) req in
        case map_range env (sms_Variables template) w of (order1, w1) \<Rightarrow>
        let message = replaceVariables (sms_Message template) order1;
            smsInput =
              \<lparr>pub_Message = message,
               PhoneNumber = RecipientPhone req,
               MessageAttributes = [(''AWS.SNS.SMS.SMSType'', ''String'', ''Transactional'')]\<rparr>
        in case Publish env smsInput w1 of
             (Some err, w2) \<Rightarrow>
               (Err (Errorf ''failed to send SMS: '' err), [SMSCall smsInput False], w2)
           | (None, w2) \<Rightarrow>
               (case uuid_NewString env w2 of (nid, w3) \<Rightarrow>
                case time_Now env w3 of (now, w4) \<Rightarrow>
                  (Ok \<lparr>NotificationID = nid, Status = ''sent'', SentAt = now, Channel = ''sms''\<rparr>,
                   [SMSCall smsInput True], w4)))"

text \<open>
  sendUrgentNotification and sendHighPriorityNotification: the email first, its error
  returned wrapped; then the SMS, whose error is dropped.
\<close>

definition sendUrgentNotification ::
  "('w, 't) env \<Rightarrow> NotificationRequest \<Rightarrow> 'w \<Rightarrow> 't NotificationResponse result \<times> event list \<times> 'w" where
  "sendUrgentNotification env req w =
     (case sendEmailNotification env req w of
        (Panic m, evs, w1) \<Rightarrow> (Panic m, evs, w1)
      | (Err err, evs, w1) \<Rightarrow> (Err (Errorf ''failed to send urgent email: '' err), evs, w1)
      | (Ok emailResp, evs, w1) \<Rightarrow>
          if RecipientPhone req \<noteq> [] then
            (case sendSMSNotification env req w1 of
               (Panic m, evs', w2) \<Rightarrow> (Panic m, evs @ evs', w2)
             | (Err err, evs', w2) \<Rightarrow> (Ok emailResp, evs @ evs', w2)
             | (Ok smsResp, evs', w2) \<Rightarrow> (Ok emailResp, evs @ evs', w2))
          else (Ok emailResp, evs, w1))"

definition sendHighPriorityNotification ::
  "('w, 't) env \<Rightarrow> NotificationRequest \<Rightarrow> 'w \<Rightarrow> 't NotificationResponse result \<times> event list \<times> 'w" where
  "sendHighPriorityNotification env req w =
     (case sendEmailNotification env req w of
        (Panic m, evs, w1) \<Rightarrow> (Panic m, evs, w1)
      | (Err err, evs, w1) \<Rightarrow> (Err (Errorf ''failed to send high priority email: '' err), evs, w1)
      | (Ok emailResp, evs, w1) \<Rightarrow>
          if RecipientPhone req \<noteq> [] \<and> isCriticalNotificationType (Type req) then
            (case sendSMSNotification env req w1 of
               (Panic m, evs', w2) \<Rightarrow> (Panic m, evs @ evs', w2)
             | (Err err, evs', w2) \<Rightarrow> (Ok emailResp, evs @ evs', w2)
             | (Ok smsResp, evs', w2) \<Rightarrow> (Ok emailResp, evs @ evs', w2))
          else (Ok emailResp, evs, w1))"

text \<open>
  uuid.MustParse returns the parsed value or panics; \<open>Inl\<close> is the panic.

  SendNotification first builds the notification record, calling uuid.MustParse on the
  landlord id and then on the recipient id; the record itself is discarded. Then the
  switch on the priority.
\<close>

definition MustParse :: "string \<Rightarrow> panic + UUID" where
  "MustParse s =
     (case uuid_Parse s of
        Inl err \<Rightarrow> Inl (ParsePanic s err)
      | Inr u \<Rightarrow> Inr u)"

definition SendNotification ::
  "('w, 't) env \<Rightarrow> NotificationRequest \<Rightarrow> 'w \<Rightarrow> 't NotificationResponse result \<times> event list \<times> 'w" where
  "SendNotification env req w =
     (case MustParse (LandlordID req) of
        Inl m \<Rightarrow> (Panic m, [], w)
      | Inr landlord \<Rightarrow>
     (case MustParse (RecipientID req) of
        Inl m \<Rightarrow> (Panic m, [], w)
      | Inr recipient \<Rightarrow>
     (case (if Priority req = ''urgent'' then sendUrgentNotification env req w
            else if Priority req = ''high'' then sendHighPriorityNotification env req w
            else sendEmailNotification env req w) of
        (Panic m, evs, w') \<Rightarrow> (Panic m, evs, w')
      | (Err err, evs, w') \<Rightarrow> (Err (Errorf ''failed to send notification: '' err), evs, w')
      | (Ok response, evs, w') \<Rightarrow> (Ok response, evs, w'))))"

text \<open>
  SendBulkNotifications: the loop over the requests, \<open>responses\<close> being the slice built
  so far. An item whose SendNotification returns an error is skipped; a panic unwinds
  the loop. The function's own error result is always nil.
\<close>

fun bulk_loop ::
  "('w, 't) env \<Rightarrow> NotificationRequest list \<Rightarrow> 't NotificationResponse list \<Rightarrow> 'w
     \<Rightarrow> 't NotificationResponse list result \<times> event list \<times> 'w" where
  "bulk_loop env [] responses w = (Ok responses, [], w)"
| "bulk_loop env (req # requests) responses w =
     (case SendNotification env req w of
        (Panic m, evs, w1) \<Rightarrow> (Panic m, evs, w1)
      | (Err err, evs, w1) \<Rightarrow>
          (case bulk_loop env requests responses w1 of
             (r, evs', w2) \<Rightarrow> (r, evs @ evs', w2))
      | (Ok resp, evs, w1) \<Rightarrow>
          (case bulk_loop env requests (responses @ [resp]) w1 of
             (r, evs', w2) \<Rightarrow> (r, evs @ evs', w2)))"

definition SendBulkNotifications ::
  "('w, 't) env \<Rightarrow> NotificationRequest list \<Rightarrow> 'w
     \<Rightarrow> 't NotificationResponse list result \<times> event list \<times> 'w" where
  "SendBulkNotifications env requests w = bulk_loop env requests [] w"


section \<open>Notions used in the statements\<close>

subsection \<open>Placeholders and tokens in a template\<close>

definition brace_free :: "string \<Rightarrow> bool" where
  "brace_free s = (CHR ''{'' \<notin> set s \<and> CHR ''}'' \<notin> set s)"

text \<open>\<open>has_token s\<close>: somewhere in \<open>s\<close> there is \<open>{{\<close> with \<open>}}\<close> after it.\<close>

fun has_close :: "string \<Rightarrow> bool" where
  "has_close (a # b # cs) = ((a = CHR ''}'' \<and> b = CHR ''}'') \<or> has_close (b # cs))"
| "has_close cs = False"

fun has_token :: "string \<Rightarrow> bool" where
  "has_token (a # b # cs) = ((a = CHR ''{'' \<and> b = CHR ''{'' \<and> has_close cs) \<or> has_token (b # cs))"
| "has_token cs = False"

text \<open>
  The keys a template uses: for every \<open>{{\<close> in it, the text up to the next \<open>}}\<close>.
\<close>

fun until_close :: "string \<Rightarrow> string option" where
  "until_close (a # b # cs) =
     (if a = CHR ''}'' \<and> b = CHR ''}'' then Some []
      else (case until_close (b # cs) of None \<Rightarrow> None | Some k \<Rightarrow> Some (a # k)))"
| "until_close cs = None"

fun placeholders :: "string \<Rightarrow> string list" where
  "placeholders (a # b # cs) =
     (if a = CHR ''{'' \<and> b = CHR ''{'' then
        (case until_close cs of None \<Rightarrow> placeholders (b # cs) | Some k \<Rightarrow> k # placeholders (b # cs))
      else placeholders (b # cs))"
| "placeholders cs = []"

subsection \<open>Templates as literal text and placeholders\<close>

datatype segment = Lit string | Var string

fun flatten :: "segment list \<Rightarrow> string" where
  "flatten [] = []"
| "flatten (Lit t # segs) = t @ flatten segs"
| "flatten (Var k # segs) = placeholder k @ flatten segs"

text \<open>Literal text that holds no \<open>{{\<close> and does not end in \<open>{\<close>.\<close>

fun safe_text :: "string \<Rightarrow> bool" where
  "safe_text [] = True"
| "safe_text [c] = (c \<noteq> CHR ''{'')"
| "safe_text (c # d # cs) = (\<not> (c = CHR ''{'' \<and> d = CHR ''{'') \<and> safe_text (d # cs))"

fun wf_segment :: "segment \<Rightarrow> bool" where
  "wf_segment (Lit t) = safe_text t"
| "wf_segment (Var k) = brace_free k"

fun subst1 :: "string \<Rightarrow> string \<Rightarrow> segment \<Rightarrow> segment" where
  "subst1 k v (Lit t) = Lit t"
| "subst1 k v (Var k') = (if k' = k then Lit v else Var k')"

text \<open>Every placeholder whose key the map holds becomes the key's value, all at once.\<close>

fun subst :: "gomap \<Rightarrow> segment \<Rightarrow> segment" where
  "subst m (Lit t) = Lit t"
| "subst m (Var k) = (case map_of m k of None \<Rightarrow> Var k | Some v \<Rightarrow> Lit v)"

definition wf_vars :: "gomap \<Rightarrow> bool" where
  "wf_vars m = (distinct (map fst m) \<and> list_all (\<lambda>(k, v). brace_free k \<and> safe_text v) m)"

subsection \<open>The generic templates\<close>

definition generic_email :: "EmailTemplate \<Rightarrow> bool" where
  "generic_email t =
     (Subject t = ''{{title}}'' \<and> HTMLBody t = generic_HTMLBody \<and> TextBody t = generic_TextBody)"

definition generic_sms :: "SMSTemplate \<Rightarrow> bool" where
  "generic_sms t = (sms_Message t = ''{{title}}: {{message}}'')"

subsection \<open>The channel plan\<close>

text \<open>
  \<open>sms_planned\<close>: the request has a phone number and its priority is urgent, or high with
  a critical type. \<open>dispatch\<close> is the switch of SendNotification, \<open>wrap_error\<close> the
  message the chosen path puts before an error of the email path.
\<close>

definition sms_planned :: "NotificationRequest \<Rightarrow> bool" where
  "sms_planned req =
     (RecipientPhone req \<noteq> [] \<and>
      (Priority req = ''urgent'' \<or> Priority req = ''high'' \<and> isCriticalNotificationType (Type req)))"

definition dispatch ::
  "('w, 't) env \<Rightarrow> NotificationRequest \<Rightarrow> 'w \<Rightarrow> 't NotificationResponse result \<times> event list \<times> 'w" where
  "dispatch env req w =
     (if Priority req = ''urgent'' then sendUrgentNotification env req w
      else if Priority req = ''high'' then sendHighPriorityNotification env req w
      else sendEmailNotification env req w)"

definition wrap_error :: "NotificationRequest \<Rightarrow> error \<Rightarrow> error" where
  "wrap_error req =
     (if Priority req = ''urgent'' then Errorf ''failed to send urgent email: ''
      else if Priority req = ''high'' then Errorf ''failed to send high priority email: ''
      else (\<lambda>e. e))"

text \<open>
  \<open>email_then_sms sms wrap em out\<close>: \<open>out\<close> is the outcome \<open>em\<close> of the email path,
  its error wrapped, followed by one SMS call when \<open>sms\<close> holds and the email was sent.
\<close>

definition email_then_sms ::
  "bool \<Rightarrow> (error \<Rightarrow> error) \<Rightarrow> 't NotificationResponse result \<times> event list \<times> 'w
     \<Rightarrow> 't NotificationResponse result \<times> event list \<times> 'w \<Rightarrow> bool" where
  "email_then_sms sms wrap em out =
     (case em of
        (Err e, evs, w1) \<Rightarrow> out = (Err (wrap e), evs, w1)
      | (Ok resp, evs, w1) \<Rightarrow>
          if sms then (\<exists>inp ok w2. out = (Ok resp, evs @ [SMSCall inp ok], w2))
          else out = (Ok resp, evs, w1)
      | (Panic m, evs, w1) \<Rightarrow> out = (Panic m, evs, w1))"

definition ids_parse :: "NotificationRequest \<Rightarrow> bool" where
  "ids_parse req = (\<not> isl (uuid_Parse (LandlordID req)) \<and> \<not> isl (uuid_Parse (RecipientID req)))"

text \<open>
  The bulk dispatcher's result, stated item by item: the responses of the items
  SendNotification answers with a response, in input order, with all the calls made.
\<close>

fun successes ::
  "('w, 't) env \<Rightarrow> NotificationRequest list \<Rightarrow> 'w
     \<Rightarrow> 't NotificationResponse list \<times> event list \<times> 'w" where
  "successes env [] w = ([], [], w)"
| "successes env (req # requests) w =
     (case SendNotification env req w of (r, evs, w1) \<Rightarrow>
      case successes env requests w1 of (rs, evs', w2) \<Rightarrow>
        ((case r of Ok resp \<Rightarrow> [resp] | Err e \<Rightarrow> [] | Panic m \<Rightarrow> []) @ rs, evs @ evs', w2))"

subsection \<open>Concrete collaborators and requests\<close>

text \<open>
  An environment whose world counts the calls made: the two transports succeed or fail as
  the flags say; the mail transport also fails for the recipient \<open>bounce@b.com\<close>.
\<close>

definition test_env :: "bool \<Rightarrow> bool \<Rightarrow> (nat, nat) env" where
  "test_env email_ok sms_ok =
     \<lparr>SendEmail = (\<lambda>i w.
        (if email_ok \<and> ToAddresses i \<noteq> [''bounce@b.com''] then None
         else Some (ExternalError ''ses: rejected''), Suc w)),
      Publish = (\<lambda>i w. (if sms_ok then None else Some (ExternalError ''sns: throttled''), Suc w)),
      uuid_NewString = (\<lambda>w. (''generated-id'', Suc w)),
      time_Now = (\<lambda>w. (w, Suc w)),
      time_Format = (\<lambda>t layout. layout),
      range_seed = (\<lambda>w. ([], w)),
      FromEmail = ''noreply@dwell.example''\<rparr>"

definition test_req :: NotificationRequest where
  "test_req =
     \<lparr>Type = ''maintenance_emergency'', Title = ''Leak'', Message = ''Water leak in unit 4'',
      LandlordID = ''123e4567-e89b-12d3-a456-426614174000'',
      RecipientID = ''123e4567-e89b-12d3-a456-426614174001'',
      RecipientType = ''tenant'', RecipientEmail = ''a@b.com'',
      RecipientPhone = ''+15551234567'', RelatedEntityID = None,
      RelatedEntityType = [], Priority = ''high''\<rparr>"


definition urgent_req :: NotificationRequest where
  "urgent_req = test_req\<lparr>Priority := ''urgent''\<rparr>"

definition low_req :: NotificationRequest where
  "low_req = test_req\<lparr>Priority := ''low''\<rparr>"

definition bounce_req :: NotificationRequest where
  "bounce_req = test_req\<lparr>RecipientEmail := ''bounce@b.com''\<rparr>"

definition bad_id_req :: NotificationRequest where
  "bad_id_req = test_req\<lparr>LandlordID := ''not-a-uuid''\<rparr>"


definition xyz_req :: NotificationRequest where
  "xyz_req = test_req\<lparr>Type := ''xyz'', Priority := ''low''\<rparr>"

text \<open>The subjects and the text bodies of the emails handed to the transport.\<close>

fun email_subjects :: "event list \<Rightarrow> string list" where
  "email_subjects [] = []"
| "email_subjects (EmailCall i ok # evs) = SubjectData i # email_subjects evs"
| "email_subjects (SMSCall i ok # evs) = email_subjects evs"

fun email_texts :: "event list \<Rightarrow> string list" where
  "email_texts [] = []"
| "email_texts (EmailCall i ok # evs) = TextData i # email_texts evs"
| "email_texts (SMSCall i ok # evs) = email_texts evs"

section \<open>ReplaceAll and replaceVariables\<close>

lemma ReplaceAll_skip:
  "old \<noteq> [] \<Longrightarrow> \<not> prefix old (c # cs) \<Longrightarrow> ReplaceAll (c # cs) old new = c # ReplaceAll cs old new"
  by simp

lemma ReplaceAll_hit:
  "old \<noteq> [] \<Longrightarrow> ReplaceAll (old @ rest) old new = new @ ReplaceAll rest old new"
  by (cases old) simp_all

lemma placeholder_Cons: "placeholder k = CHR ''{'' # CHR ''{'' # k @ ''}}''"
  by (simp add: placeholder_def)

lemma placeholder_not_Nil: "placeholder k \<noteq> []"
  by (simp add: placeholder_def)

text \<open>Text without an opening brace is copied: no occurrence of a placeholder starts in it.\<close>

lemma ReplaceAll_no_open:
  "CHR ''{'' \<notin> set t \<Longrightarrow> ReplaceAll (t @ rest) (placeholder k) v = t @ ReplaceAll rest (placeholder k) v"
proof (induction t)
  case Nil
  then show ?case by simp
next
  case (Cons c t)
  then have "\<not> prefix (placeholder k) (c # t @ rest)"
    by (auto simp: placeholder_Cons)
  with Cons show ?case by (simp add: placeholder_not_Nil)
qed

lemma key_eq:
  "brace_free j \<Longrightarrow> brace_free k \<Longrightarrow> prefix (j @ ''}}'') (k @ ''}}'' @ post) \<Longrightarrow> j = k"
proof (induction j arbitrary: k)
  case Nil
  then show ?case by (cases k) (auto simp: brace_free_def)
next
  case (Cons a j)
  then show ?case by (cases k) (auto simp: brace_free_def)
qed

text \<open>The placeholder of another key is copied, when neither key holds a brace.\<close>

lemma ReplaceAll_other_placeholder:
  assumes "brace_free j" "brace_free k" "j \<noteq> k"
  shows "ReplaceAll (placeholder k @ post) (placeholder j) v = placeholder k @ ReplaceAll post (placeholder j) v"
proof -
  have n0: "\<not> prefix (placeholder j) (placeholder k @ post)"
    using assms key_eq[of j k post] by (auto simp: placeholder_Cons)
  have n1: "\<not> prefix (placeholder j) (CHR ''{'' # k @ ''}}'' @ post)"
    using assms by (cases k) (auto simp: placeholder_Cons brace_free_def)
  have "CHR ''{'' \<notin> set (k @ ''}}'')" using assms by (simp add: brace_free_def)
  then have r: "ReplaceAll ((k @ ''}}'') @ post) (placeholder j) v = (k @ ''}}'') @ ReplaceAll post (placeholder j) v"
    by (rule ReplaceAll_no_open)
  have "ReplaceAll (placeholder k @ post) (placeholder j) v
        = CHR ''{'' # ReplaceAll (CHR ''{'' # k @ ''}}'' @ post) (placeholder j) v"
    using n0 ReplaceAll_skip[OF placeholder_not_Nil, of j "CHR ''{''" "CHR ''{'' # k @ ''}}'' @ post" v]
    by (simp add: placeholder_Cons)
  also have "\<dots> = CHR ''{'' # CHR ''{'' # ReplaceAll (k @ ''}}'' @ post) (placeholder j) v"
    using n1 ReplaceAll_skip[OF placeholder_not_Nil, of j "CHR ''{''" "k @ ''}}'' @ post" v]
    by simp
  also have "\<dots> = placeholder k @ ReplaceAll post (placeholder j) v"
    using r by (simp add: placeholder_Cons)
  finally show ?thesis .
qed

text \<open>
  An occurrence of one placeholder cannot reach into an occurrence of another: if
  \<open>{{j}}\<close> starts in \<open>pre\<close>, it ends there.
\<close>

lemma placeholder_overlap:
  assumes "brace_free j" "brace_free k" "j \<noteq> k"
    and "prefix (placeholder j) (pre @ placeholder k @ post)"
  shows "prefix (placeholder j) pre"
proof (cases pre)
  case Nil
  with assms key_eq[of j k post] show ?thesis by (auto simp: placeholder_Cons)
next
  case (Cons a pre1)
  show ?thesis
  proof (cases pre1)
    case Nil
    with Cons assms show ?thesis
      by (cases j) (auto simp: placeholder_Cons brace_free_def)
  next
    case (Cons b pre2)
    from assms(4) have "prefix (j @ ''}}'') (pre2 @ placeholder k @ post)"
      using \<open>pre = a # pre1\<close> Cons by (auto simp: placeholder_Cons)
    then have "prefix (j @ ''}}'') pre2 \<or> (\<exists>us. j @ ''}}'' = pre2 @ us \<and> prefix us (placeholder k @ post))"
      by (rule iffD1[OF prefix_append])
    then have "prefix (j @ ''}}'') pre2"
    proof
      assume "prefix (j @ ''}}'') pre2"
      then show ?thesis .
    next
      assume "\<exists>us. j @ ''}}'' = pre2 @ us \<and> prefix us (placeholder k @ post)"
      then obtain us where us: "j @ ''}}'' = pre2 @ us" "prefix us (placeholder k @ post)"
        by blast
      show ?thesis
      proof (cases us)
        case Nil
        with us(1) show ?thesis by simp
      next
        case (Cons u us')
        with us(2) have "u = CHR ''{''" by (simp add: placeholder_Cons)
        with Cons have "CHR ''{'' \<in> set (pre2 @ us)" by simp
        with us(1) have "CHR ''{'' \<in> set (j @ ''}}'')" by simp
        with assms(1) show ?thesis by (simp add: brace_free_def)
      qed
    qed
    with assms(4) \<open>pre = a # pre1\<close> Cons show ?thesis
      by (auto simp: placeholder_Cons)
  qed
qed

lemma ReplaceAll_barrier:
  assumes "brace_free j" "brace_free k" "j \<noteq> k"
  shows "ReplaceAll (pre @ placeholder k @ post) (placeholder j) v
         = ReplaceAll pre (placeholder j) v @ placeholder k @ ReplaceAll post (placeholder j) v"
proof (induction pre rule: length_induct)
  case (1 pre)
  show ?case
  proof (cases pre)
    case Nil
    with assms show ?thesis by (simp add: ReplaceAll_other_placeholder placeholder_not_Nil)
  next
    case (Cons c cs)
    show ?thesis
    proof (cases "prefix (placeholder j) pre")
      case True
      then obtain rest where rest: "pre = placeholder j @ rest" by (auto simp: prefix_def)
      have "length rest < length pre" using rest by (simp add: placeholder_def)
      with 1 have IH: "ReplaceAll (rest @ placeholder k @ post) (placeholder j) v
         = ReplaceAll rest (placeholder j) v @ placeholder k @ ReplaceAll post (placeholder j) v"
        by blast
      have "ReplaceAll (pre @ placeholder k @ post) (placeholder j) v
            = v @ ReplaceAll (rest @ placeholder k @ post) (placeholder j) v"
        using ReplaceAll_hit[OF placeholder_not_Nil, of j "rest @ placeholder k @ post" v] rest by simp
      moreover have "ReplaceAll pre (placeholder j) v = v @ ReplaceAll rest (placeholder j) v"
        using ReplaceAll_hit[OF placeholder_not_Nil, of j rest v] rest by simp
      ultimately show ?thesis using IH by simp
    next
      case False
      with assms placeholder_overlap[of j k pre post]
      have nf: "\<not> prefix (placeholder j) (pre @ placeholder k @ post)" by blast
      have "length cs < length pre" using Cons by simp
      with 1 have IH: "ReplaceAll (cs @ placeholder k @ post) (placeholder j) v
         = ReplaceAll cs (placeholder j) v @ placeholder k @ ReplaceAll post (placeholder j) v"
        by blast
      from nf False Cons IH show ?thesis
        by (simp add: placeholder_not_Nil)
    qed
  qed
qed

lemma replaceVariables_barrier:
  "brace_free k \<Longrightarrow> list_all (\<lambda>(j, v). brace_free j \<and> j \<noteq> k) es \<Longrightarrow>
   replaceVariables (pre @ placeholder k @ post) es
     = replaceVariables pre es @ placeholder k @ replaceVariables post es"
proof (induction es arbitrary: pre post)
  case Nil
  then show ?case by simp
next
  case (Cons e es)
  obtain j v where e: "e = (j, v)" by (cases e)
  with Cons.prems have "brace_free j" "j \<noteq> k" by auto
  with Cons.prems(1) have "ReplaceAll (pre @ placeholder k @ post) (placeholder j) v
         = ReplaceAll pre (placeholder j) v @ placeholder k @ ReplaceAll post (placeholder j) v"
    by (simp add: ReplaceAll_barrier)
  moreover from Cons.prems have "list_all (\<lambda>(j, v). brace_free j \<and> j \<noteq> k) es" by simp
  ultimately show ?case using Cons.IH[OF Cons.prems(1)] e by simp
qed

lemma has_close_append: "has_close (k @ CHR ''}'' # CHR ''}'' # rest)"
  by (induction k rule: has_close.induct) auto

lemma has_token_placeholder: "has_token (placeholder k @ rest)"
  using has_close_append[of k rest] by (simp add: placeholder_Cons)

lemma has_token_prefix: "prefix (placeholder k) s \<Longrightarrow> has_token s"
  using has_token_placeholder by (auto simp: prefix_def)

lemma has_token_tl: "\<not> has_token (c # cs) \<Longrightarrow> \<not> has_token cs"
  by (cases cs) auto

lemma ReplaceAll_no_token: "\<not> has_token s \<Longrightarrow> ReplaceAll s (placeholder k) v = s"
proof (induction s)
  case Nil
  then show ?case by (simp add: placeholder_not_Nil)
next
  case (Cons c cs)
  then have "\<not> prefix (placeholder k) (c # cs)" using has_token_prefix by blast
  moreover have "\<not> has_token cs" using Cons.prems by (rule has_token_tl)
  ultimately show ?case using Cons.IH by (simp add: placeholder_not_Nil)
qed

lemma replaceVariables_no_token: "\<not> has_token s \<Longrightarrow> replaceVariables s es = s"
  by (induction es) (auto simp: ReplaceAll_no_token)

text \<open>
  C7 (as amended). For every template and every mapping whose keys hold no brace,
  replaceVariables leaves a placeholder \<open>{{k}}\<close> whose key \<open>k\<close> (itself free of braces) is
  not in the mapping where it stands: the output is the rendering of the text before it,
  the placeholder, and the rendering of the text after it. Rendering
  \<open>Hello {{missing}}\<close> with the empty mapping gives the same string. For every mapping, a
  string with no \<open>{{...}}\<close> token is returned unchanged, so rendering an output that has
  no token left a second time changes nothing.
\<close>

theorem replaceVariables_keeps_unresolved:
  assumes "brace_free k" and "list_all (\<lambda>(j, v). brace_free j \<and> j \<noteq> k) es"
  shows "replaceVariables (pre @ placeholder k @ post) es
           = replaceVariables pre es @ placeholder k @ replaceVariables post es
       \<and> replaceVariables ''Hello {{missing}}'' [] = ''Hello {{missing}}''
       \<and> (\<not> has_token s \<longrightarrow> replaceVariables s vars = s)
       \<and> (\<not> has_token (replaceVariables t vars) \<longrightarrow>
            replaceVariables (replaceVariables t vars) vars = replaceVariables t vars)"
  using assms by (simp add: replaceVariables_barrier replaceVariables_no_token)

theorem replaceVariables_keeps_unresolved_witness:
  "replaceVariables (''Hello {{name}}, '' @ placeholder ''missing'' @ ''!'') [(''name'', ''Ann'')]
     = ''Hello Ann, {{missing}}!''
   \<and> \<not> has_token ''Hello Ann''
   \<and> replaceVariables ''Hello Ann'' [(''name'', ''Bob'')] = ''Hello Ann''
   \<and> \<not> has_token (replaceVariables ''Hi {{name}}'' [(''name'', ''Bob'')])
   \<and> replaceVariables (replaceVariables ''Hi {{name}}'' [(''name'', ''Bob'')]) [(''name'', ''Bob'')]
       = ''Hi Bob''"
proof -
  have k: "brace_free ''missing''" by (simp add: brace_free_def)
  have es: "list_all (\<lambda>(j, v). brace_free j \<and> j \<noteq> ''missing'') [(''name'', ''Ann'')]"
    by (simp add: brace_free_def)
  show ?thesis
    using replaceVariables_keeps_unresolved [OF k es, of "''Hello {{name}}, ''" "''!''"
        "''Hello Ann''" "[(''name'', ''Bob'')]" "''Hi {{name}}''"]
    by (simp add: placeholder_def)
qed

text \<open>
  The claim as stated fails for a key that holds braces: the template
  \<open>{{x}}{{x}}\<close> is two placeholders of the key \<open>x\<close>, the mapping has no key \<open>x\<close>, and
  both are replaced.
\<close>

theorem replaceVariables_brace_key_counterexample:
  "map_of [(''x}}{{x'', ''v'')] ''x'' = None
   \<and> replaceVariables (placeholder ''x'' @ placeholder ''x'') [(''x}}{{x'', ''v'')] = ''v''"
  by (simp add: placeholder_def)



subsection \<open>Templates of literal text and placeholders\<close>

lemma ReplaceAll_safe_text:
  "safe_text t \<Longrightarrow> ReplaceAll (t @ rest) (placeholder k) v = t @ ReplaceAll rest (placeholder k) v"
proof (induction t rule: safe_text.induct)
  case 1
  then show ?case by simp
next
  case (2 c)
  then have "\<not> prefix (placeholder k) (c # rest)" by (auto simp: placeholder_Cons)
  then show ?case by (simp add: placeholder_not_Nil)
next
  case (3 c d cs)
  then have "\<not> prefix (placeholder k) (c # d # cs @ rest)" by (auto simp: placeholder_Cons)
  with 3 show ?case by (simp add: placeholder_not_Nil)
qed

text \<open>One pass over such a template replaces the placeholders of its key and nothing else.\<close>

lemma ReplaceAll_flatten:
  "list_all wf_segment segs \<Longrightarrow> brace_free k \<Longrightarrow>
   ReplaceAll (flatten segs) (placeholder k) v = flatten (map (subst1 k v) segs)"
proof (induction segs rule: flatten.induct)
  case 1
  then show ?case by (simp add: placeholder_not_Nil)
next
  case (2 t segs)
  then show ?case by (simp add: ReplaceAll_safe_text)
next
  case (3 k' segs)
  show ?case
  proof (cases "k' = k")
    case True
    with 3 show ?thesis
      using ReplaceAll_hit[OF placeholder_not_Nil, of k "flatten segs" v] by simp
  next
    case False
    with 3 show ?thesis
      using ReplaceAll_other_placeholder[of k k' "flatten segs" v] by simp
  qed
qed

lemma wf_subst1:
  "safe_text v \<Longrightarrow> list_all wf_segment segs \<Longrightarrow> list_all wf_segment (map (subst1 k v) segs)"
  by (induction segs rule: flatten.induct) auto

lemma subst_Cons:
  "k \<notin> fst ` set m \<Longrightarrow> subst m (subst1 k v seg) = subst ((k, v) # m) seg"
  by (cases seg) (auto simp: map_of_eq_None_iff split: option.splits)

lemma replaceVariables_flatten:
  "wf_vars es \<Longrightarrow> list_all wf_segment segs \<Longrightarrow>
   replaceVariables (flatten segs) es = flatten (map (subst es) segs)"
proof (induction es arbitrary: segs)
  case Nil
  have "map (subst []) segs = segs"
    by (induction segs rule: flatten.induct) auto
  then show ?case by simp
next
  case (Cons e es)
  obtain k v where e: "e = (k, v)" by (cases e)
  from Cons.prems e have kv: "brace_free k" "safe_text v" "k \<notin> fst ` set es" and es: "wf_vars es"
    by (auto simp: wf_vars_def)
  have "replaceVariables (flatten segs) (e # es)
        = replaceVariables (flatten (map (subst1 k v) segs)) es"
    using e kv Cons.prems(2) by (simp add: ReplaceAll_flatten)
  also have "\<dots> = flatten (map (subst es) (map (subst1 k v) segs))"
    using Cons.IH[OF es wf_subst1[OF kv(2) Cons.prems(2)]] .
  also have "\<dots> = flatten (map (subst (e # es)) segs)"
    using kv(3) e by (simp add: subst_Cons comp_def)
  finally show ?case .
qed

lemma subst_cong_set:
  assumes "distinct (map fst es)" "distinct (map fst es')" "set es = set es'"
  shows "subst es' = subst es"
proof -
  have m: "map_of es' = map_of es"
    using assms by (simp add: map_of_inject_set)
  show ?thesis
  proof
    fix seg
    show "subst es' seg = subst es seg" using m by (cases seg) simp_all
  qed
qed

text \<open>Whatever the seed, \<open>shuffle\<close> visits every entry once.\<close>

lemma mset_remove_nth:
  assumes "i < length ys"
  shows "add_mset (ys ! i) (mset (take i ys @ drop (Suc i) ys)) = mset ys"
proof -
  have "mset ys = mset (take i ys @ ys ! i # drop (Suc i) ys)"
    using id_take_nth_drop[OF assms] by simp
  then show ?thesis by simp
qed

lemma mset_shuffle: "mset (shuffle ns xs) = mset xs"
proof (induction ns xs rule: shuffle.induct)
  case (1 xs)
  then show ?case by simp
next
  case (2 n ns)
  then show ?case by simp
next
  case (3 n ns x xs)
  have "n mod Suc (length xs) < length (x # xs)" by simp
  from mset_remove_nth[OF this] 3 show ?case by simp
qed

lemma wf_vars_shuffle:
  assumes "wf_vars m"
  shows "wf_vars (shuffle ns m) \<and> set (shuffle ns m) = set m"
proof -
  have m: "mset (shuffle ns m) = mset m" by (rule mset_shuffle)
  then have "mset (map fst (shuffle ns m)) = mset (map fst m)" by (metis mset_map)
  then have d: "distinct (map fst (shuffle ns m)) = distinct (map fst m)"
    by (rule mset_eq_imp_distinct_iff)
  from m have "set (shuffle ns m) = set m" by (rule mset_eq_setD)
  with assms d show ?thesis by (simp add: wf_vars_def list_all_iff)
qed

text \<open>
  C8 (as amended). replaceVariables makes one ReplaceAll pass per entry of the mapping, in
  the order the entries are visited. When the template consists of literal text (holding
  no \<open>{{\<close> and not ending in \<open>{\<close>) and placeholders whose keys hold no brace, and the
  mapping's keys hold no brace and its values are such literal text, every placeholder
  whose key is in the mapping is replaced by the key's value exactly once and every other
  placeholder is kept, so two runs that visit the same mapping in different orders give
  the same output; in particular the output does not depend on the seed of the order.
\<close>

theorem replaceVariables_order_independent:
  assumes "wf_vars es" and "wf_vars es'" and "set es = set es'"
    and "list_all wf_segment segs"
  shows "replaceVariables (flatten segs) es = flatten (map (subst es) segs)
       \<and> replaceVariables (flatten segs) es' = replaceVariables (flatten segs) es
       \<and> replaceVariables (flatten segs) (shuffle seed es) = replaceVariables (flatten segs) es"
proof -
  have 1: "subst es' = subst es"
    using assms(1-3) by (intro subst_cong_set) (simp_all add: wf_vars_def)
  have sh: "wf_vars (shuffle seed es)" "set (shuffle seed es) = set es"
    using wf_vars_shuffle[OF assms(1), of seed] by simp_all
  have 2: "subst (shuffle seed es) = subst es"
    using assms(1) sh by (intro subst_cong_set) (simp_all add: wf_vars_def)
  from 1 2 sh(1) assms show ?thesis by (simp add: replaceVariables_flatten)
qed

theorem replaceVariables_order_independent_witness:
  "replaceVariables ''Hi {{a}} and {{b}} {{c}}'' [(''a'', ''1''), (''b'', ''2'')] = ''Hi 1 and 2 {{c}}''
   \<and> replaceVariables ''Hi {{a}} and {{b}} {{c}}'' [(''b'', ''2''), (''a'', ''1'')] = ''Hi 1 and 2 {{c}}''
   \<and> shuffle [1] [(''a'', ''1''), (''b'', ''2'')] = [(''b'', ''2''), (''a'', ''1'')]"
proof -
  have 1: "wf_vars [(''a'', ''1''), (''b'', ''2'')]" by (simp add: wf_vars_def brace_free_def)
  have 2: "wf_vars [(''b'', ''2''), (''a'', ''1'')]" by (simp add: wf_vars_def brace_free_def)
  have 3: "set [(''a'', ''1''), (''b'', ''2'')] = set [(''b'', ''2''), (''a'', ''1'')]" by auto
  have 4: "list_all wf_segment [Lit ''Hi '', Var ''a'', Lit '' and '', Var ''b'', Lit '' '', Var ''c'']"
    by (simp add: brace_free_def)
  show ?thesis
    using replaceVariables_order_independent [OF 1 2 3 4, of "[1]"]
    by (simp add: placeholder_def)
qed

text \<open>
  The claim as stated fails when a value holds the placeholder of another key: visiting
  \<open>a\<close> before \<open>b\<close> expands the inserted \<open>{{b}}\<close>, visiting \<open>b\<close> first does not.
\<close>

theorem replaceVariables_order_counterexample:
  "set [(''a'', ''{{b}}''), (''b'', ''x'')] = set [(''b'', ''x''), (''a'', ''{{b}}'')]
   \<and> replaceVariables ''{{a}}'' [(''a'', ''{{b}}''), (''b'', ''x'')] = ''x''
   \<and> replaceVariables ''{{a}}'' [(''b'', ''x''), (''a'', ''{{b}}'')] = ''{{b}}''"
  by (auto simp: placeholder_def)


section \<open>The template registry\<close>

text \<open>
  C10. The email templates that are not the generic one are those of the types
  \<open>maintenance_request\<close> and \<open>payment_due\<close>; the SMS templates that are not the generic
  one are those of \<open>maintenance_emergency\<close> and \<open>payment_overdue\<close>. Every other type
  resolves to the generic email template and the generic SMS template; among them the
  critical types \<open>lease_violation\<close>, \<open>property_damage\<close> and \<open>security_breach\<close>.
\<close>

theorem template_registry:
  "(generic_email (fst (getEmailTemplate env ty req w))
      \<longleftrightarrow> ty \<notin> {''maintenance_request'', ''payment_due''})
   \<and> (generic_sms (getSMSTemplate ty req)
      \<longleftrightarrow> ty \<notin> {''maintenance_emergency'', ''payment_overdue''})
   \<and> Subject (fst (getEmailTemplate env ''maintenance_request'' req w))
        = ''New Maintenance Request - {{title}}''
   \<and> HTMLBody (fst (getEmailTemplate env ''maintenance_request'' req w)) = maintenance_request_HTMLBody
   \<and> TextBody (fst (getEmailTemplate env ''maintenance_request'' req w)) = maintenance_request_TextBody
   \<and> Subject (fst (getEmailTemplate env ''payment_due'' req w)) = ''Payment Due Reminder''
   \<and> HTMLBody (fst (getEmailTemplate env ''payment_due'' req w)) = payment_due_HTMLBody
   \<and> TextBody (fst (getEmailTemplate env ''payment_due'' req w)) = payment_due_TextBody
   \<and> sms_Message (getSMSTemplate ''maintenance_emergency'' req)
        = ''URGENT: Emergency maintenance request at {{property_name}}. Please respond immediately.''
   \<and> sms_Message (getSMSTemplate ''payment_overdue'' req)
        = ''Payment overdue: ${{amount}} due for {{property_name}}. Please contact us immediately.''
   \<and> generic_email (fst (getEmailTemplate env ''lease_violation'' req w))
   \<and> generic_sms (getSMSTemplate ''lease_violation'' req)
   \<and> generic_email (fst (getEmailTemplate env ''property_damage'' req w))
   \<and> generic_sms (getSMSTemplate ''property_damage'' req)
   \<and> generic_email (fst (getEmailTemplate env ''security_breach'' req w))
   \<and> generic_sms (getSMSTemplate ''security_breach'' req)"
  by (simp add: getEmailTemplate_def getSMSTemplate_def generic_email_def generic_sms_def
      Let_def split: prod.split)

subsection \<open>The generic email template and the variables of a request\<close>

lemma placeholders_generic_TextBody:
  "placeholders generic_TextBody = [''title'', ''recipient_name'', ''message'', ''date'', ''time'']"
  unfolding generic_TextBody_def by simp

lemma placeholders_generic_HTMLBody:
  "placeholders generic_HTMLBody = [''title'', ''recipient_name'', ''message'', ''date'', ''time'']"
  unfolding generic_HTMLBody_def by simp

lemma getEmailTemplate_generic:
  assumes "ty \<noteq> ''maintenance_request''" and "ty \<noteq> ''payment_due''"
  shows "getEmailTemplate env ty req w =
     (\<lparr>Subject = ''{{title}}'', HTMLBody = generic_HTMLBody, TextBody = generic_TextBody,
       Variables = [(''recipient_name'', RecipientType req),
                    (''landlord_name'', ''Property Management''),
                    (''date'', time_Format env (fst (time_Now env w)) ''January 2, 2006''),
                    (''time'', time_Format env (fst (time_Now env (snd (time_Now env w)))) ''3:04 PM'')]\<rparr>,
      snd (time_Now env (snd (time_Now env w))))"
  using assms by (simp add: getEmailTemplate_def Let_def split: prod.split)

text \<open>
  For every request with an unmatched type, the subject and the bodies of the generic
  email template use the variables title, message, recipient_name, date and time and no
  others. The variable mapping built for the request has the four base variables and no
  other key: recipient_name (the request's recipient type), landlord_name, and date and
  time (two successive readings of the clock, formatted). Nothing of the request but its
  recipient type enters the mapping.
\<close>

lemma generic_email_variables:
  assumes "ty \<noteq> ''maintenance_request''" and "ty \<noteq> ''payment_due''"
    and "getEmailTemplate env ty req w = (tpl, w')"
  shows "set (placeholders (Subject tpl)) \<union> set (placeholders (HTMLBody tpl))
           \<union> set (placeholders (TextBody tpl))
         = {''title'', ''message'', ''recipient_name'', ''date'', ''time''}
       \<and> Variables tpl =
           [(''recipient_name'', RecipientType req),
            (''landlord_name'', ''Property Management''),
            (''date'', time_Format env (fst (time_Now env w)) ''January 2, 2006''),
            (''time'', time_Format env (fst (time_Now env (snd (time_Now env w)))) ''3:04 PM'')]"
proof -
  from getEmailTemplate_generic[OF assms(1,2), of env req w] assms(3)
  have tpl: "tpl =
     \<lparr>Subject = ''{{title}}'', HTMLBody = generic_HTMLBody, TextBody = generic_TextBody,
       Variables = [(''recipient_name'', RecipientType req),
                    (''landlord_name'', ''Property Management''),
                    (''date'', time_Format env (fst (time_Now env w)) ''January 2, 2006''),
                    (''time'', time_Format env (fst (time_Now env (snd (time_Now env w)))) ''3:04 PM'')]\<rparr>"
    by simp
  have "set (placeholders (Subject tpl)) \<union> set (placeholders (HTMLBody tpl))
           \<union> set (placeholders (TextBody tpl))
         = {''title'', ''message'', ''recipient_name'', ''date'', ''time''}"
    unfolding tpl by (auto simp: placeholders_generic_HTMLBody placeholders_generic_TextBody)
  then show ?thesis unfolding tpl by simp
qed

text \<open>
  The title placeholder survives every rendering with the base variables, whatever their
  values and whatever the order of the passes: no pass looks for it.
\<close>

lemma title_kept:
  "replaceVariables ''{{title}}''
     (shuffle seed [(''recipient_name'', a), (''landlord_name'', b), (''date'', c), (''time'', d)])
   = ''{{title}}''"
proof -
  let ?m = "[(''recipient_name'', a), (''landlord_name'', b), (''date'', c), (''time'', d)]"
  have "set (shuffle seed ?m) = set ?m"
    using mset_shuffle[of seed ?m] by (rule mset_eq_setD)
  then have keys: "list_all (\<lambda>(j, v). brace_free j \<and> j \<noteq> ''title'') (shuffle seed ?m)"
    by (simp add: list_all_iff brace_free_def)
  have k: "brace_free ''title''" by (simp add: brace_free_def)
  have e: "replaceVariables [] (shuffle seed ?m) = []"
    by (rule replaceVariables_no_token) simp
  from replaceVariables_barrier[OF k keys, of "[]" "[]"] e show ?thesis
    by (simp add: placeholder_def)
qed

text \<open>
  So on every request with an unmatched type, in every environment, the one email the
  email path hands to the transport has the literal subject \<open>{{title}}\<close>.
\<close>

lemma generic_subject_always_unresolved:
  assumes "Type req \<noteq> ''maintenance_request''" and "Type req \<noteq> ''payment_due''"
  shows "email_subjects (fst (snd (sendEmailNotification env req w))) = [''{{title}}'']"
  by (simp add: sendEmailNotification_def getEmailTemplate_generic[OF assms] map_range_def
      title_kept Let_def split: prod.split option.split)


section \<open>Dispatch\<close>

lemma sendEmailNotification_shape:
  "\<exists>inp w1. (\<exists>e. sendEmailNotification env req w = (Err (Errorf ''failed to send email: '' e), [EmailCall inp False], w1))
      \<or> (\<exists>resp. sendEmailNotification env req w = (Ok resp, [EmailCall inp True], w1)
            \<and> Status resp = ''sent'' \<and> Channel resp = ''email'')"
  by (simp add: sendEmailNotification_def Let_def split: prod.split option.split)

lemma sendSMSNotification_shape:
  "RecipientPhone req \<noteq> [] \<Longrightarrow>
   \<exists>inp w1. (\<exists>e. sendSMSNotification env req w = (Err e, [SMSCall inp False], w1))
      \<or> (\<exists>resp. sendSMSNotification env req w = (Ok resp, [SMSCall inp True], w1))"
  by (simp add: sendSMSNotification_def Let_def split: prod.split option.split)

text \<open>The email path does not touch the SMS transport.\<close>

lemma getEmailTemplate_Publish:
  "getEmailTemplate (env\<lparr>Publish := p\<rparr>) ty req w = getEmailTemplate env ty req w"
  by (simp add: getEmailTemplate_def)

lemma map_range_Publish: "map_range (env\<lparr>Publish := p\<rparr>) m w = map_range env m w"
  by (simp add: map_range_def)

lemma sendEmailNotification_Publish:
  "sendEmailNotification (env\<lparr>Publish := p\<rparr>) req w = sendEmailNotification env req w"
  by (simp add: sendEmailNotification_def getEmailTemplate_Publish map_range_Publish
      cong: prod.case_cong option.case_cong)

lemma isCritical_iff:
  "isCriticalNotificationType t \<longleftrightarrow>
     t \<in> {''maintenance_emergency'', ''payment_overdue'', ''lease_violation'',
           ''property_damage'', ''security_breach''}"
  by (simp add: isCriticalNotificationType_def)

lemma sendUrgentNotification_shape:
  "email_then_sms (RecipientPhone req \<noteq> []) (Errorf ''failed to send urgent email: '')
     (sendEmailNotification env req w) (sendUrgentNotification env req w)"
proof (cases "sendEmailNotification env req w")
  case (fields r evs w1)
  show ?thesis
  proof (cases "\<exists>resp. r = Ok resp \<and> RecipientPhone req \<noteq> []")
    case True
    then obtain resp where "r = Ok resp" "RecipientPhone req \<noteq> []" by blast
    with fields sendSMSNotification_shape[of req env w1] show ?thesis
      by (auto simp: email_then_sms_def sendUrgentNotification_def)
  next
    case False
    with fields show ?thesis
      by (cases r) (auto simp: email_then_sms_def sendUrgentNotification_def)
  qed
qed

lemma sendHighPriorityNotification_shape:
  "email_then_sms (RecipientPhone req \<noteq> [] \<and> isCriticalNotificationType (Type req))
     (Errorf ''failed to send high priority email: '')
     (sendEmailNotification env req w) (sendHighPriorityNotification env req w)"
proof (cases "sendEmailNotification env req w")
  case (fields r evs w1)
  show ?thesis
  proof (cases "\<exists>resp. r = Ok resp \<and> RecipientPhone req \<noteq> [] \<and> isCriticalNotificationType (Type req)")
    case True
    then obtain resp where "r = Ok resp" "RecipientPhone req \<noteq> []" "isCriticalNotificationType (Type req)"
      by blast
    with fields sendSMSNotification_shape[of req env w1] show ?thesis
      by (auto simp: email_then_sms_def sendHighPriorityNotification_def)
  next
    case False
    with fields show ?thesis
      by (cases r) (auto simp: email_then_sms_def sendHighPriorityNotification_def)
  qed
qed

lemma email_then_sms_refl: "email_then_sms False (\<lambda>e. e) em em"
  by (cases em) (auto simp: email_then_sms_def split: result.split)

lemma dispatch_shape:
  "email_then_sms (sms_planned req) (wrap_error req) (sendEmailNotification env req w) (dispatch env req w)"
proof (cases "Priority req = ''urgent''")
  case True
  then show ?thesis
    using sendUrgentNotification_shape[of req env w] by (simp add: sms_planned_def dispatch_def wrap_error_def)
next
  case False
  show ?thesis
  proof (cases "Priority req = ''high''")
    case True
    then show ?thesis
      using sendHighPriorityNotification_shape[of req env w] by (simp add: sms_planned_def dispatch_def wrap_error_def)
  next
    case False
    with \<open>Priority req \<noteq> ''urgent''\<close> show ?thesis
      using email_then_sms_refl[of "sendEmailNotification env req w"]
      by (simp add: sms_planned_def dispatch_def wrap_error_def)
  qed
qed

lemma SendNotification_valid:
  assumes "\<not> isl (uuid_Parse (LandlordID req))" "\<not> isl (uuid_Parse (RecipientID req))"
  shows "SendNotification env req w =
     (case dispatch env req w of
        (Panic m, evs, w') \<Rightarrow> (Panic m, evs, w')
      | (Err err, evs, w') \<Rightarrow> (Err (Errorf ''failed to send notification: '' err), evs, w')
      | (Ok response, evs, w') \<Rightarrow> (Ok response, evs, w'))"
  using assms by (auto simp: SendNotification_def MustParse_def dispatch_def split: sum.splits)

lemma SendNotification_invalid:
  assumes "isl (uuid_Parse (LandlordID req)) \<or> isl (uuid_Parse (RecipientID req))"
  shows "\<exists>m. SendNotification env req w = (Panic m, [], w)"
  using assms by (auto simp: SendNotification_def MustParse_def split: sum.splits)

text \<open>What SendNotification does on a request whose two ids parse, in one statement.\<close>

lemma SendNotification_outcome:
  assumes "\<not> isl (uuid_Parse (LandlordID req))" "\<not> isl (uuid_Parse (RecipientID req))"
  shows "(\<exists>inp e w1. sendEmailNotification env req w = (Err e, [EmailCall inp False], w1)
            \<and> SendNotification env req w
                = (Err (Errorf ''failed to send notification: '' (wrap_error req e)), [EmailCall inp False], w1))
       \<or> (\<exists>inp resp w1. sendEmailNotification env req w = (Ok resp, [EmailCall inp True], w1)
            \<and> Status resp = ''sent'' \<and> Channel resp = ''email''
            \<and> (if sms_planned req
                then \<exists>sinp ok w2. SendNotification env req w = (Ok resp, [EmailCall inp True, SMSCall sinp ok], w2)
                else SendNotification env req w = (Ok resp, [EmailCall inp True], w1)))"
proof -
  from sendEmailNotification_shape[of env req w]
  obtain inp w1 where
    "(\<exists>e. sendEmailNotification env req w = (Err (Errorf ''failed to send email: '' e), [EmailCall inp False], w1))
      \<or> (\<exists>resp. sendEmailNotification env req w = (Ok resp, [EmailCall inp True], w1)
            \<and> Status resp = ''sent'' \<and> Channel resp = ''email'')"
    by blast
  then show ?thesis
  proof
    assume "\<exists>e. sendEmailNotification env req w = (Err (Errorf ''failed to send email: '' e), [EmailCall inp False], w1)"
    then obtain e where em: "sendEmailNotification env req w = (Err e, [EmailCall inp False], w1)"
      by blast
    with dispatch_shape[of req env w] have "dispatch env req w = (Err (wrap_error req e), [EmailCall inp False], w1)"
      by (simp add: email_then_sms_def)
    then have "SendNotification env req w
        = (Err (Errorf ''failed to send notification: '' (wrap_error req e)), [EmailCall inp False], w1)"
      by (simp add: SendNotification_valid[OF assms])
    with em show ?thesis by blast
  next
    assume "\<exists>resp. sendEmailNotification env req w = (Ok resp, [EmailCall inp True], w1)
            \<and> Status resp = ''sent'' \<and> Channel resp = ''email''"
    then obtain resp where em: "sendEmailNotification env req w = (Ok resp, [EmailCall inp True], w1)"
      and st: "Status resp = ''sent''" "Channel resp = ''email''"
      by blast
    have "if sms_planned req
          then \<exists>sinp ok w2. SendNotification env req w = (Ok resp, [EmailCall inp True, SMSCall sinp ok], w2)
          else SendNotification env req w = (Ok resp, [EmailCall inp True], w1)"
    proof (cases "sms_planned req")
      case True
      with em dispatch_shape[of req env w]
      obtain sinp ok w2 where "dispatch env req w = (Ok resp, [EmailCall inp True, SMSCall sinp ok], w2)"
        by (auto simp: email_then_sms_def)
      then have "SendNotification env req w = (Ok resp, [EmailCall inp True, SMSCall sinp ok], w2)"
        by (simp add: SendNotification_valid[OF assms])
      with True show ?thesis by auto
    next
      case False
      with em dispatch_shape[of req env w]
      have "dispatch env req w = (Ok resp, [EmailCall inp True], w1)"
        by (auto simp: email_then_sms_def)
      then have "SendNotification env req w = (Ok resp, [EmailCall inp True], w1)"
        by (simp add: SendNotification_valid[OF assms])
      with False show ?thesis by auto
    qed
    with em st show ?thesis by blast
  qed
qed

text \<open>The returned result is determined by the outcome of the email path alone.\<close>

lemma SendNotification_result:
  "fst (SendNotification env req w) =
     (case MustParse (LandlordID req) of
        Inl m \<Rightarrow> Panic m
      | Inr landlord \<Rightarrow>
     (case MustParse (RecipientID req) of
        Inl m \<Rightarrow> Panic m
      | Inr recipient \<Rightarrow>
     (case fst (sendEmailNotification env req w) of
        Panic m \<Rightarrow> Panic m
      | Err e \<Rightarrow> Err (Errorf ''failed to send notification: '' (wrap_error req e))
      | Ok resp \<Rightarrow> Ok resp)))"
proof (cases "\<not> isl (uuid_Parse (LandlordID req)) \<and> \<not> isl (uuid_Parse (RecipientID req))")
  case True
  then have v: "\<not> isl (uuid_Parse (LandlordID req))" "\<not> isl (uuid_Parse (RecipientID req))" by simp_all
  from SendNotification_outcome[OF v, of env w] v show ?thesis
    by (auto simp: MustParse_def split: if_splits sum.splits)
next
  case False
  then show ?thesis
    by (auto simp: SendNotification_def MustParse_def split: sum.splits)
qed

lemma SendNotification_Publish:
  "fst (SendNotification (env\<lparr>Publish := p\<rparr>) req w) = fst (SendNotification env req w)"
  unfolding SendNotification_result sendEmailNotification_Publish ..


subsection \<open>Concrete runs\<close>

lemma test_ids:
  "uuid_Parse ''123e4567-e89b-12d3-a456-426614174000''
     = Inr [18, 62, 69, 103, 232, 155, 18, 211, 164, 86, 66, 102, 20, 23, 64, 0]"
  "uuid_Parse ''123e4567-e89b-12d3-a456-426614174001''
     = Inr [18, 62, 69, 103, 232, 155, 18, 211, 164, 86, 66, 102, 20, 23, 64, 1]"
  by (simp_all add: uuid_Parse_def parse_dashed_def hex_pairs_def xtob_def xvalue_def)

lemma test_bad_id:
  "uuid_Parse ''not-a-uuid'' = Inl (InvalidLength 10)" "uuid_Parse [] = Inl (InvalidLength 0)"
  by (simp_all add: uuid_Parse_def)

lemmas run_defs =
  SendNotification_def MustParse_def sendUrgentNotification_def sendHighPriorityNotification_def
  sendEmailNotification_def sendSMSNotification_def getEmailTemplate_def getSMSTemplate_def
  isCriticalNotificationType_def map_range_def test_env_def Let_def
  test_req_def urgent_req_def low_req_def bounce_req_def bad_id_req_def xyz_req_def
  test_ids test_bad_id

lemma ids_parse_test:
  "ids_parse test_req" "ids_parse urgent_req" "ids_parse low_req" "ids_parse bounce_req"
  "\<not> ids_parse bad_id_req"
  by (simp_all add: ids_parse_def run_defs)

lemma triple_collapse: "x = (fst x, fst (snd x), snd (snd x))"
  by simp

subsection \<open>The urgent path\<close>

text \<open>
  C1 (as amended). For every request with priority urgent whose landlord id and recipient
  id parse as UUIDs, SendNotification invokes the email transport exactly once. When the
  email transport succeeds, the SMS transport is invoked (once) if and only if the
  recipient phone is non-empty, and the returned result is the response of the email
  path, with status sent and channel email. Replacing the SMS transport by any other
  never changes the returned result: no failure of the SMS transport reaches the caller.
\<close>

theorem urgent_dispatch:
  assumes "Priority req = ''urgent''" and "ids_parse req"
    and "SendNotification env req w = (r, evs, w')"
  shows "length (filter is_email evs) = 1
     \<and> (list_ex succeeded_email evs \<longrightarrow>
          (list_ex is_sms evs \<longleftrightarrow> RecipientPhone req \<noteq> [])
        \<and> length (filter is_sms evs) \<le> 1
        \<and> (\<exists>resp. r = Ok resp \<and> Status resp = ''sent'' \<and> Channel resp = ''email'')
        \<and> r = fst (sendEmailNotification env req w))
     \<and> (\<forall>p. fst (SendNotification (env\<lparr>Publish := p\<rparr>) req w) = r)"
proof -
  from assms(2) have v: "\<not> isl (uuid_Parse (LandlordID req))" "\<not> isl (uuid_Parse (RecipientID req))"
    by (simp_all add: ids_parse_def)
  have p: "\<forall>p. fst (SendNotification (env\<lparr>Publish := p\<rparr>) req w) = r"
    using assms(3) by (simp add: SendNotification_Publish)
  have s: "sms_planned req \<longleftrightarrow> RecipientPhone req \<noteq> []"
    using assms(1) by (simp add: sms_planned_def)
  from SendNotification_outcome[OF v, of env w] assms(3) s
  have "length (filter is_email evs) = 1
     \<and> (list_ex succeeded_email evs \<longrightarrow>
          (list_ex is_sms evs \<longleftrightarrow> RecipientPhone req \<noteq> [])
        \<and> length (filter is_sms evs) \<le> 1
        \<and> (\<exists>resp. r = Ok resp \<and> Status resp = ''sent'' \<and> Channel resp = ''email'')
        \<and> r = fst (sendEmailNotification env req w))"
    by (auto split: if_splits)
  with p show ?thesis by blast
qed

text \<open>An urgent request with a phone number; the email is sent, the SMS transport fails.\<close>

theorem urgent_dispatch_witness:
  "length (filter is_email (fst (snd (SendNotification (test_env True False) urgent_req 0)))) = 1
   \<and> list_ex succeeded_email (fst (snd (SendNotification (test_env True False) urgent_req 0)))
   \<and> list_ex failed_sms (fst (snd (SendNotification (test_env True False) urgent_req 0)))
   \<and> RecipientPhone urgent_req \<noteq> []
   \<and> fst (SendNotification (test_env True False) urgent_req 0)
       = Ok \<lparr>NotificationID = ''generated-id'', Status = ''sent'', SentAt = 4, Channel = ''email''\<rparr>
   \<and> fst (SendNotification (test_env True False) urgent_req 0)
       = fst (SendNotification ((test_env True False)\<lparr>Publish := Publish (test_env True True)\<rparr>) urgent_req 0)"
proof -
  have 1: "Priority urgent_req = ''urgent''" by (simp add: run_defs)
  show ?thesis
    using urgent_dispatch [OF 1 ids_parse_test(2) triple_collapse, of "test_env True False" 0]
    by (simp add: run_defs)
qed

text \<open>
  The claim as stated fails twice. When the email transport fails, the SMS transport is
  not invoked although the phone number is present; and when the landlord id does not
  parse, not even the email transport is invoked.
\<close>

theorem urgent_dispatch_counterexample:
  "Priority urgent_req = ''urgent'' \<and> RecipientPhone urgent_req \<noteq> []
   \<and> list_ex failed_email (fst (snd (SendNotification (test_env False True) urgent_req 0)))
   \<and> filter is_sms (fst (snd (SendNotification (test_env False True) urgent_req 0))) = []
   \<and> Priority (bad_id_req\<lparr>Priority := ''urgent''\<rparr>) = ''urgent''
   \<and> filter is_email (fst (snd (SendNotification (test_env True True)
        (bad_id_req\<lparr>Priority := ''urgent''\<rparr>) 0))) = []"
  by (simp add: run_defs)

subsection \<open>The high-priority path\<close>

text \<open>
  C2 (as amended). For every request with priority high and a type in the critical set
  whose landlord id and recipient id parse as UUIDs, the email transport is invoked
  exactly once. When it succeeds, SendNotification returns a success (status sent,
  channel email), and the SMS transport is invoked once if the recipient phone is
  non-empty and not at all if it is empty. With an empty phone number the SMS transport
  is never invoked.
\<close>

theorem high_critical_dispatch:
  assumes "Priority req = ''high''"
    and "Type req \<in> {''maintenance_emergency'', ''payment_overdue'', ''lease_violation'',
           ''property_damage'', ''security_breach''}"
    and "ids_parse req"
    and "SendNotification env req w = (r, evs, w')"
  shows "length (filter is_email evs) = 1
     \<and> (list_ex succeeded_email evs \<longrightarrow>
          length (filter is_sms evs) = (if RecipientPhone req = [] then 0 else 1)
        \<and> (\<exists>resp. r = Ok resp \<and> Status resp = ''sent'' \<and> Channel resp = ''email''))
     \<and> (RecipientPhone req = [] \<longrightarrow> filter is_sms evs = [])"
proof -
  from assms(3) have v: "\<not> isl (uuid_Parse (LandlordID req))" "\<not> isl (uuid_Parse (RecipientID req))"
    by (simp_all add: ids_parse_def)
  have s: "sms_planned req \<longleftrightarrow> RecipientPhone req \<noteq> []"
    using assms(1,2) by (simp add: sms_planned_def isCritical_iff)
  from SendNotification_outcome[OF v, of env w] assms(4) s
  show ?thesis
    by (auto split: if_splits)
qed

text \<open>
  The scenario of a maintenance emergency at priority high with a phone number, both
  transports succeeding; and the same request without a phone number.
\<close>

theorem high_critical_dispatch_witness:
  "length (filter is_email (fst (snd (SendNotification (test_env True True) test_req 0)))) = 1
   \<and> list_ex succeeded_email (fst (snd (SendNotification (test_env True True) test_req 0)))
   \<and> length (filter is_sms (fst (snd (SendNotification (test_env True True) test_req 0)))) = 1
   \<and> fst (SendNotification (test_env True True) test_req 0)
       = Ok \<lparr>NotificationID = ''generated-id'', Status = ''sent'', SentAt = 4, Channel = ''email''\<rparr>
   \<and> filter is_sms (fst (snd (SendNotification (test_env True True) (test_req\<lparr>RecipientPhone := []\<rparr>) 0))) = []
   \<and> fst (SendNotification (test_env True True) (test_req\<lparr>RecipientPhone := []\<rparr>) 0)
       = Ok \<lparr>NotificationID = ''generated-id'', Status = ''sent'', SentAt = 4, Channel = ''email''\<rparr>"
proof -
  have 1: "Priority test_req = ''high''" "Priority (test_req\<lparr>RecipientPhone := []\<rparr>) = ''high''"
    by (simp_all add: run_defs)
  have 2: "Type test_req \<in> {''maintenance_emergency'', ''payment_overdue'', ''lease_violation'',
           ''property_damage'', ''security_breach''}"
     "Type (test_req\<lparr>RecipientPhone := []\<rparr>) \<in> {''maintenance_emergency'', ''payment_overdue'', ''lease_violation'',
           ''property_damage'', ''security_breach''}"
    by (simp_all add: run_defs)
  have 3: "ids_parse (test_req\<lparr>RecipientPhone := []\<rparr>)"
    by (simp add: ids_parse_def run_defs)
  show ?thesis
    using high_critical_dispatch [OF 1(1) 2(1) ids_parse_test(1) triple_collapse, of "test_env True True" 0]
      high_critical_dispatch [OF 1(2) 2(2) 3 triple_collapse, of "test_env True True" 0]
    by (simp add: run_defs)
qed

text \<open>
  The claim as stated fails when the email transport fails: with a phone number the
  SMS transport is not invoked, and without one SendNotification returns an error.
\<close>

theorem high_critical_dispatch_counterexample:
  "Priority test_req = ''high'' \<and> Type test_req = ''maintenance_emergency''
   \<and> RecipientPhone test_req \<noteq> []
   \<and> filter is_sms (fst (snd (SendNotification (test_env False True) test_req 0))) = []
   \<and> fst (SendNotification (test_env False True) (test_req\<lparr>RecipientPhone := []\<rparr>) 0)
       = Err (Errorf ''failed to send notification: ''
               (Errorf ''failed to send high priority email: ''
                 (Errorf ''failed to send email: '' (ExternalError ''ses: rejected''))))"
  by (simp add: run_defs)

subsection \<open>A failing email transport\<close>

text \<open>
  C3. For every request, if the call of the email transport fails then SendNotification
  returns an error and no response, and the SMS transport is not invoked for that
  request, whatever the priority and whether or not a phone number is present.
\<close>

theorem email_failure_is_fatal:
  assumes "SendNotification env req w = (r, evs, w')" and "list_ex failed_email evs"
  shows "(\<exists>e. r = Err e) \<and> filter is_sms evs = []"
proof (cases "\<not> isl (uuid_Parse (LandlordID req)) \<and> \<not> isl (uuid_Parse (RecipientID req))")
  case True
  then have v: "\<not> isl (uuid_Parse (LandlordID req))" "\<not> isl (uuid_Parse (RecipientID req))" by simp_all
  from SendNotification_outcome[OF v, of env w] assms show ?thesis
    by (auto split: if_splits)
next
  case False
  with SendNotification_invalid[of req env w] assms show ?thesis by auto
qed

theorem email_failure_is_fatal_witness:
  "list_ex failed_email (fst (snd (SendNotification (test_env False True) urgent_req 0)))
   \<and> fst (SendNotification (test_env False True) urgent_req 0)
       = Err (Errorf ''failed to send notification: ''
               (Errorf ''failed to send urgent email: ''
                 (Errorf ''failed to send email: '' (ExternalError ''ses: rejected''))))
   \<and> filter is_sms (fst (snd (SendNotification (test_env False True) urgent_req 0))) = []"
proof -
  have 1: "list_ex failed_email (fst (snd (SendNotification (test_env False True) urgent_req 0)))"
    by (simp add: run_defs)
  show ?thesis
    using email_failure_is_fatal [OF triple_collapse 1] 1
    by (simp add: run_defs)
qed

subsection \<open>The other priorities\<close>

text \<open>
  C4 (as amended). For every request whose priority is neither high nor urgent (an
  absent or unrecognized priority included) and whose landlord id and recipient id parse
  as UUIDs, SendNotification takes the email-only path: exactly one call of the email
  transport occurs and the SMS transport is never invoked.
\<close>

theorem regular_priority_email_only:
  assumes "Priority req \<noteq> ''high''" and "Priority req \<noteq> ''urgent''"
    and "ids_parse req"
    and "SendNotification env req w = (r, evs, w')"
  shows "length (filter is_email evs) = 1 \<and> filter is_sms evs = []
       \<and> evs = fst (snd (sendEmailNotification env req w))
       \<and> w' = snd (snd (sendEmailNotification env req w))"
proof -
  from assms(3) have v: "\<not> isl (uuid_Parse (LandlordID req))" "\<not> isl (uuid_Parse (RecipientID req))"
    by (simp_all add: ids_parse_def)
  have s: "\<not> sms_planned req"
    using assms(1,2) by (simp add: sms_planned_def)
  from SendNotification_outcome[OF v, of env w] assms(4) s
  show ?thesis
    by (auto split: if_splits)
qed

text \<open>A request of priority low, and one whose priority is absent (the empty string).\<close>

theorem regular_priority_email_only_witness:
  "length (filter is_email (fst (snd (SendNotification (test_env True True) low_req 0)))) = 1
   \<and> filter is_sms (fst (snd (SendNotification (test_env True True) low_req 0))) = []
   \<and> length (filter is_email (fst (snd (SendNotification (test_env True True) (test_req\<lparr>Priority := []\<rparr>) 0)))) = 1
   \<and> filter is_sms (fst (snd (SendNotification (test_env True True) (test_req\<lparr>Priority := []\<rparr>) 0))) = []"
proof -
  have 1: "Priority low_req \<noteq> ''high''" "Priority low_req \<noteq> ''urgent''"
    "Priority (test_req\<lparr>Priority := []\<rparr>) \<noteq> ''high''" "Priority (test_req\<lparr>Priority := []\<rparr>) \<noteq> ''urgent''"
    by (simp_all add: run_defs)
  have 2: "ids_parse (test_req\<lparr>Priority := []\<rparr>)"
    by (simp add: ids_parse_def run_defs)
  show ?thesis
    using regular_priority_email_only [OF 1(1,2) ids_parse_test(3) triple_collapse, of "test_env True True" 0]
      regular_priority_email_only [OF 1(3,4) 2 triple_collapse, of "test_env True True" 0]
    by blast
qed

text \<open>
  The claim as stated fails for a request whose landlord id does not parse: the email
  transport is not invoked at all.
\<close>

theorem regular_priority_counterexample:
  "Priority (bad_id_req\<lparr>Priority := ''low''\<rparr>) \<noteq> ''high''
   \<and> Priority (bad_id_req\<lparr>Priority := ''low''\<rparr>) \<noteq> ''urgent''
   \<and> filter is_email (fst (snd (SendNotification (test_env True True) (bad_id_req\<lparr>Priority := ''low''\<rparr>) 0))) = []"
  by (simp add: run_defs)



subsection \<open>Ids that do not parse\<close>

text \<open>
  C9. A malformed request is not answered with a validation error: SendNotification
  calls uuid.MustParse on the landlord id and on the recipient id, and a value that does
  not parse makes it panic before any transport is invoked. Here the landlord id is
  \<open>not-a-uuid\<close>, and then the recipient id is missing (empty).
\<close>

theorem malformed_id_panics:
  "SendNotification (test_env True True) bad_id_req 0 = (Panic (ParsePanic ''not-a-uuid'' (InvalidLength 10)), [], 0)
   \<and> SendNotification (test_env True True) (test_req\<lparr>RecipientID := []\<rparr>) 0
       = (Panic (ParsePanic [] (InvalidLength 0)), [], 0)"
  by (simp add: run_defs)

text \<open>
  The ways SendNotification ends: it panics exactly when one of the two ids does not
  parse, it returns an error exactly when the call of the email transport failed, and it
  returns a response exactly when that call succeeded. No other validation takes place.
\<close>

theorem SendNotification_failure_modes:
  assumes "SendNotification env req w = (r, evs, w')"
  shows "((\<exists>m. r = Panic m) \<longleftrightarrow> \<not> ids_parse req)
       \<and> ((\<exists>e. r = Err e) \<longleftrightarrow> list_ex failed_email evs)
       \<and> ((\<exists>resp. r = Ok resp) \<longleftrightarrow> list_ex succeeded_email evs)"
proof (cases "ids_parse req")
  case True
  then have v: "\<not> isl (uuid_Parse (LandlordID req))" "\<not> isl (uuid_Parse (RecipientID req))"
    by (simp_all add: ids_parse_def)
  from SendNotification_outcome[OF v, of env w] assms True show ?thesis
    by (auto split: if_splits)
next
  case False
  then have "isl (uuid_Parse (LandlordID req)) \<or> isl (uuid_Parse (RecipientID req))"
    by (simp add: ids_parse_def)
  from SendNotification_invalid[OF this, of env w] assms False show ?thesis by auto
qed

theorem SendNotification_failure_modes_witness:
  "\<not> ids_parse bad_id_req
   \<and> fst (SendNotification (test_env True True) bad_id_req 0) = Panic (ParsePanic ''not-a-uuid'' (InvalidLength 10))
   \<and> list_ex failed_email (fst (snd (SendNotification (test_env False True) low_req 0)))
   \<and> fst (SendNotification (test_env False True) low_req 0)
       = Err (Errorf ''failed to send notification: ''
               (Errorf ''failed to send email: '' (ExternalError ''ses: rejected'')))
   \<and> list_ex succeeded_email (fst (snd (SendNotification (test_env True True) low_req 0)))
   \<and> fst (SendNotification (test_env True True) low_req 0)
       = Ok \<lparr>NotificationID = ''generated-id'', Status = ''sent'', SentAt = 4, Channel = ''email''\<rparr>"
  using SendNotification_failure_modes [OF triple_collapse, of "test_env True True" bad_id_req 0]
    SendNotification_failure_modes [OF triple_collapse, of "test_env False True" low_req 0]
    SendNotification_failure_modes [OF triple_collapse, of "test_env True True" low_req 0]
  by (simp add: run_defs ids_parse_test)

subsection \<open>The bulk dispatcher\<close>

lemma SendNotification_no_panic:
  assumes "ids_parse req"
  shows "fst (SendNotification env req w) \<noteq> Panic m"
  using SendNotification_failure_modes [OF triple_collapse, of env req w] assms by auto

lemma bulk_loop_successes:
  "list_all ids_parse requests \<Longrightarrow>
   bulk_loop env requests responses w =
     (case successes env requests w of (rs, evs, w') \<Rightarrow> (Ok (responses @ rs), evs, w'))"
proof (induction requests arbitrary: responses w)
  case Nil
  then show ?case by simp
next
  case (Cons req requests)
  obtain r evs w1 where sn: "SendNotification env req w = (r, evs, w1)"
    by (cases "SendNotification env req w")
  from Cons.prems have ids: "ids_parse req" and rest: "list_all ids_parse requests" by simp_all
  from SendNotification_no_panic[OF ids, of env w] sn have np: "\<And>m. r \<noteq> Panic m" by auto
  show ?case
  proof (cases r)
    case (Ok resp)
    with sn Cons.IH[OF rest, of "responses @ [resp]" w1] show ?thesis
      by (simp split: prod.split)
  next
    case (Err e)
    with sn Cons.IH[OF rest, of responses w1] show ?thesis
      by (simp split: prod.split)
  next
    case (Panic m)
    with np[of m] show ?thesis by blast
  qed
qed

lemma length_successes: "length (fst (successes env requests w)) \<le> length requests"
proof (induction requests arbitrary: w)
  case Nil
  then show ?case by simp
next
  case (Cons req requests)
  obtain r evs w1 where sn: "SendNotification env req w = (r, evs, w1)"
    by (cases "SendNotification env req w")
  from Cons.IH[of w1] sn show ?case
    by (cases r) (auto split: prod.split)
qed

text \<open>
  When the ids of every request parse, SendBulkNotifications works through the requests
  in input order, skips each item whose SendNotification returns an error, and returns,
  with a nil error, the responses of exactly the other items in their input order; there
  are at most as many as requests.
\<close>

theorem bulk_returns_successes:
  assumes "list_all ids_parse requests"
  shows "SendBulkNotifications env requests w
           = (Ok (fst (successes env requests w)), snd (successes env requests w))
       \<and> length (fst (successes env requests w)) \<le> length requests"
  using bulk_loop_successes[OF assms, of env "[]" w] length_successes[of env requests w]
  by (simp add: SendBulkNotifications_def split: prod.split)

text \<open>Three requests, the second of which the email transport rejects.\<close>

theorem bulk_returns_successes_witness:
  "fst (SendBulkNotifications (test_env True True) [test_req, bounce_req, low_req] 0)
     = Ok [\<lparr>NotificationID = ''generated-id'', Status = ''sent'', SentAt = 4, Channel = ''email''\<rparr>,
           \<lparr>NotificationID = ''generated-id'', Status = ''sent'', SentAt = 15, Channel = ''email''\<rparr>]
   \<and> list_ex failed_email (fst (snd (SendNotification (test_env True True) bounce_req 8)))"
proof -
  have 1: "list_all ids_parse [test_req, bounce_req, low_req]"
    by (simp add: ids_parse_test)
  show ?thesis
    using bulk_returns_successes [OF 1, of "test_env True True" 0]
    by (simp add: run_defs)
qed

text \<open>
  C5. The bulk dispatcher does not isolate an item whose id does not parse: the panic
  of SendNotification unwinds the loop, and the response of the first request, which had
  been sent, is lost with the rest of the batch.
\<close>

theorem bulk_aborts_on_malformed_id:
  "fst (SendNotification (test_env True True) test_req 0)
     = Ok \<lparr>NotificationID = ''generated-id'', Status = ''sent'', SentAt = 4, Channel = ''email''\<rparr>
   \<and> fst (SendBulkNotifications (test_env True True) [test_req, bad_id_req, low_req] 0)
     = Panic (ParsePanic ''not-a-uuid'' (InvalidLength 10))"
  by (simp add: SendBulkNotifications_def run_defs)



subsection \<open>The generic email as it is sent\<close>

text \<open>
  C6. The rendered generic email is not free of unresolved placeholders. For a request
  of the unknown type \<open>xyz\<close> with title \<open>Leak\<close>, the variable mapping has no entry for
  title and none for message, although the request carries both and the generic template
  uses them: the email handed to the transport has the subject \<open>{{title}}\<close>, and its
  text body still holds the title and message placeholders around the resolved
  recipient name, date and time.
\<close>

theorem generic_email_sent_unresolved:
  "Type xyz_req = ''xyz'' \<and> Title xyz_req = ''Leak'' \<and> Message xyz_req = ''Water leak in unit 4''
   \<and> map_of (Variables (fst (getEmailTemplate (test_env True True) (Type xyz_req) xyz_req 0))) ''title'' = None
   \<and> map_of (Variables (fst (getEmailTemplate (test_env True True) (Type xyz_req) xyz_req 0))) ''message'' = None
   \<and> email_subjects (fst (snd (SendNotification (test_env True True) xyz_req 0))) = [''{{title}}'']
   \<and> email_texts (fst (snd (SendNotification (test_env True True) xyz_req 0)))
       = [[CHR 0x0A] @ ''{{title}}'' @ [CHR 0x0A, CHR 0x0A] @ ''Hello tenant,'' @ [CHR 0x0A, CHR 0x0A]
          @ ''{{message}}'' @ [CHR 0x0A, CHR 0x0A] @ ''Date: January 2, 2006 at 3:04 PM'']"
  by (simp add: run_defs placeholder_def generic_TextBody_def)

end
